theory Spec2Isabelle
  imports Complex_Main "HOL-Library.Word"
begin

section \<open>Data model\<close>

text \<open>
  The program of \<^verbatim>\<open>stock-dashboard.py\<close> works on one pandas table \<^verbatim>\<open>data\<close>, as
  the market-data download returns it for one ticker: an index of timestamps, and the
  columns Open, High, Low, Close and Volume, one value of each per row.

  A price is idealised as a real number: rounding, infinities and NaN of the 64-bit
  floats are not modelled in the price columns. A volume is a cell of an \<^verbatim>\<open>int64\<close>
  column, a 64-bit word read as a signed integer, so that the column sum wraps around as
  it does in the program. The undefined marker of an indicator column, pandas' NaN, is
  \<open>None\<close>.

  Exceptions are values of the type \<open>error\<close>, named as Python names them.
\<close>

datatype error = AttributeError | IndexError | TypeError | ValueError | ZeroDivisionError

text \<open>The time zone of a timestamp index or column: \<open>None\<close> when it is tz-naive.\<close>

type_synonym tz = "string option"

text \<open>
  The index of a table is either a \<^verbatim>\<open>DatetimeIndex\<close> (its name, its time zone and
  its instants, as the count of nanoseconds pandas stores: UTC instants when the index is
  tz-aware, wall-clock readings when it is naive) or the positional \<^verbatim>\<open>RangeIndex\<close>
  \<open>0, \<dots>, n - 1\<close> that \<^verbatim>\<open>reset_index\<close> leaves behind.
\<close>

datatype pd_index =
    DatetimeIndex "string option" tz "int list"
  | RangeIndex nat

record bar =
  Open :: real
  High :: real
  Low :: real
  Close :: real
  Volume :: "64 word"

text \<open>
  Every column other than the five of a bar is kept by its label, in the order of the
  table: the timestamp column that \<^verbatim>\<open>reset_index\<close> makes of the index, and the
  indicator columns.
\<close>

datatype column =
    Stamps tz "int list"
  | Ints "int list"
  | Floats "real option list"

record dataframe =
  index :: pd_index
  bars :: "bar list"
  columns :: "(string \<times> column) list"

definition labels :: "dataframe \<Rightarrow> string list" where
  "labels df = map fst (columns df) @ [''Open'', ''High'', ''Low'', ''Close'', ''Volume'']"

section \<open>The period to interval lookup\<close>

text \<open>The dictionary \<^verbatim>\<open>interval_mapping\<close> (lines 62 to 68).\<close>

definition interval_mapping :: "string \<rightharpoonup> string" where
  "interval_mapping =
     [''1d'' \<mapsto> ''1m'',
      ''1wk'' \<mapsto> ''30m'',
      ''1mo'' \<mapsto> ''1d'',
      ''1y'' \<mapsto> ''1wk'',
      ''max'' \<mapsto> ''1wk'']"

section \<open>Summary metrics\<close>

text \<open>
  Python's true division of floats: a zero divisor raises \<^verbatim>\<open>ZeroDivisionError\<close>
  (the operands are Python floats, as \<^verbatim>\<open>.item()\<close> returns them).
\<close>

definition py_truediv :: "real \<Rightarrow> real \<Rightarrow> error + real" where
  "py_truediv a b = (if b = 0 then Inl ZeroDivisionError else Inr (a / b))"

text \<open>
  \<^verbatim>\<open>calculate_metrics\<close> (lines 31 to 40). The result pairs the table as the call
  leaves it with the tuple returned or the exception raised; the body only reads
  \<^verbatim>\<open>data\<close>. The positional reads \<^verbatim>\<open>iloc[-1]\<close> and \<^verbatim>\<open>iloc[0]\<close> raise
  \<^verbatim>\<open>IndexError\<close> on a table with no row; they come first, so the aggregations of
  lines 37 to 39 only ever run on a table with a row. The sum of line 39 is taken in the
  64 bits of the column and wraps around; \<^verbatim>\<open>.item()\<close> returns it as a signed
  Python integer.
\<close>

type_synonym metrics = "real \<times> real \<times> real \<times> real \<times> real \<times> int"

definition calculate_metrics :: "dataframe \<Rightarrow> dataframe \<times> (error + metrics)" where
  "calculate_metrics data =
     (data,
      case map Close (bars data) of
        [] \<Rightarrow> Inl IndexError
      | c # cs \<Rightarrow>
          (let last_close = last (c # cs);
               prev_close = c;
               change = last_close - prev_close
           in case py_truediv change prev_close of
                Inl e \<Rightarrow> Inl e
              | Inr q \<Rightarrow>
                  (let pct_change = q * 100;
                       high = Max (set (map High (bars data)));
                       low = Min (set (map Low (bars data)));
                       volume = sint (sum_list (map Volume (bars data)))
                   in Inr (last_close, change, pct_change, high, low, volume))))"

text \<open>
  The same call with the operations on Python floats that it evaluates (lines 35 and
  36) written down in order, each with its operands; an operation that raises is the last
  one written. The source compares \<^verbatim>\<open>prev_close\<close> with nothing, so no comparison is
  among them.
\<close>

datatype float_op = Sub real real | TrueDiv real real | Mul real real

definition calculate_metrics_traced :: "dataframe \<Rightarrow> float_op list \<times> (error + metrics)" where
  "calculate_metrics_traced data =
     (case map Close (bars data) of
        [] \<Rightarrow> ([], Inl IndexError)
      | c # cs \<Rightarrow>
          (let last_close = last (c # cs);
               prev_close = c;
               change = last_close - prev_close
           in case py_truediv change prev_close of
                Inl e \<Rightarrow> ([Sub last_close prev_close, TrueDiv change prev_close], Inl e)
              | Inr q \<Rightarrow>
                  (let pct_change = q * 100;
                       high = Max (set (map High (bars data)));
                       low = Min (set (map Low (bars data)));
                       volume = sint (sum_list (map Volume (bars data)))
                   in ([Sub last_close prev_close, TrueDiv change prev_close, Mul q 100],
                       Inr (last_close, change, pct_change, high, low, volume)))))"

section \<open>Normalisation\<close>

text \<open>
  The pandas operations that \<^verbatim>\<open>process_data\<close> calls. The attribute
  \<^verbatim>\<open>tzinfo\<close> exists on a \<^verbatim>\<open>DatetimeIndex\<close> only. \<^verbatim>\<open>tz_localize\<close>, which the
  source calls with \<^verbatim>\<open>'UTC'\<close> only, reads naive wall-clock timestamps as UTC instants
  (the stored counts stay) and refuses an index that has a zone; \<^verbatim>\<open>tz_convert\<close> gives
  the same instants another zone and refuses a naive index.
\<close>

fun tzinfo :: "pd_index \<Rightarrow> error + tz" where
  "tzinfo (DatetimeIndex n z vs) = Inr z"
| "tzinfo (RangeIndex k) = Inl AttributeError"

fun tz_localize_UTC :: "pd_index \<Rightarrow> error + pd_index" where
  "tz_localize_UTC (DatetimeIndex n None vs) = Inr (DatetimeIndex n (Some ''UTC'') vs)"
| "tz_localize_UTC (DatetimeIndex n (Some z) vs) = Inl TypeError"
| "tz_localize_UTC (RangeIndex k) = Inl AttributeError"

fun tz_convert :: "string \<Rightarrow> pd_index \<Rightarrow> error + pd_index" where
  "tz_convert z' (DatetimeIndex n (Some z) vs) = Inr (DatetimeIndex n (Some z') vs)"
| "tz_convert z' (DatetimeIndex n None vs) = Inl TypeError"
| "tz_convert z' (RangeIndex k) = Inl AttributeError"

text \<open>
  \<^verbatim>\<open>reset_index\<close> moves the index into a new first column and leaves a
  \<^verbatim>\<open>RangeIndex\<close>. The column takes the name of the index; an index with no name gives
  \<^verbatim>\<open>index\<close>, or \<^verbatim>\<open>level_0\<close> when \<^verbatim>\<open>index\<close> is taken. A label that the table
  already has raises \<^verbatim>\<open>ValueError\<close>.
\<close>

definition index_label :: "dataframe \<Rightarrow> string option \<Rightarrow> string" where
  "index_label df n =
     (case n of
        Some s \<Rightarrow> s
      | None \<Rightarrow> if ''index'' \<in> set (labels df) then ''level_0'' else ''index'')"

fun index_column :: "pd_index \<Rightarrow> column" where
  "index_column (DatetimeIndex n z vs) = Stamps z vs"
| "index_column (RangeIndex k) = Ints (map int [0..<k])"

fun index_name :: "pd_index \<Rightarrow> string option" where
  "index_name (DatetimeIndex n z vs) = n"
| "index_name (RangeIndex k) = None"

fun index_length :: "pd_index \<Rightarrow> nat" where
  "index_length (DatetimeIndex n z vs) = length vs"
| "index_length (RangeIndex k) = k"

definition reset_index :: "dataframe \<Rightarrow> error + dataframe" where
  "reset_index df =
     (let l = index_label df (index_name (index df))
      in if l \<in> set (labels df) then Inl ValueError
         else Inr (df\<lparr>index := RangeIndex (index_length (index df)),
                      columns := (l, index_column (index df)) # columns df\<rparr>))"

text \<open>
  \<^verbatim>\<open>rename(columns=m)\<close> relabels the columns that the dictionary names. The source's
  dictionary has the one key \<^verbatim>\<open>Date\<close>, which is none of the five labels of a bar.
\<close>

definition rename :: "(string \<rightharpoonup> string) \<Rightarrow> dataframe \<Rightarrow> dataframe" where
  "rename m df =
     df\<lparr>columns := map (\<lambda>(l, c). (case m l of None \<Rightarrow> l | Some l' \<Rightarrow> l', c)) (columns df)\<rparr>"

text \<open>
  \<^verbatim>\<open>process_data\<close> (lines 22 to 29): each statement in turn, the first exception
  ending the call. The value is the table returned, which is the argument updated in place.
\<close>

definition process_data :: "dataframe \<Rightarrow> error + dataframe" where
  "process_data data =
     (case tzinfo (index data) of
        Inl e \<Rightarrow> Inl e
      | Inr z \<Rightarrow>
          (case (if z = None then tz_localize_UTC (index data) else Inr (index data)) of
             Inl e \<Rightarrow> Inl e
           | Inr i1 \<Rightarrow>
               (case tz_convert ''US/Eastern'' i1 of
                  Inl e \<Rightarrow> Inl e
                | Inr i2 \<Rightarrow>
                    (case reset_index (data\<lparr>index := i2\<rparr>) of
                       Inl e \<Rightarrow> Inl e
                     | Inr d \<Rightarrow> Inr (rename [''Date'' \<mapsto> ''Datetime''] d)))))"

section \<open>Technical indicators\<close>

text \<open>
  The two indicators are computed by \<^verbatim>\<open>ta.trend.sma_indicator\<close> and
  \<^verbatim>\<open>ta.trend.ema_indicator\<close> of the technical-analysis library, whose code is not
  part of the source. The definitions of this section up to \<open>ema_indicator\<close> follow the
  indicator engine of the specification instead, over the close column and a window
  \<open>W\<close>; where the specification leaves the rule to the library, they follow the
  library.
\<close>

text \<open>Modelled from the spec: the arithmetic mean of a run of closes, absent from the source.\<close>

definition mean :: "real list \<Rightarrow> real" where
  "mean xs = sum_list xs / real (length xs)"

text \<open>
  Modelled from the spec: \<^verbatim>\<open>ta.trend.sma_indicator\<close>, absent from the source. The
  simple moving average at index \<open>i\<close> is the arithmetic mean of
  \<open>close[i - W + 1 .. i]\<close> and undefined for \<open>i < W - 1\<close>; the output is aligned one to
  one with the input, with an explicit undefined marker.
\<close>

definition sma_indicator :: "real list \<Rightarrow> nat \<Rightarrow> real option list" where
  "sma_indicator close w =
     map (\<lambda>i. if i < w - 1 then None else Some (mean (take w (drop (i + 1 - w) close))))
       [0..<length close]"

text \<open>
  Modelled from the spec: the recurrence of the exponential moving average, absent from
  the source: \<open>EMA[i] = close[i] * \<alpha> + EMA[i - 1] * (1 - \<alpha>)\<close>, run over the closes
  that follow the previous value \<open>prev\<close>.
\<close>

fun ema_rec :: "real \<Rightarrow> real \<Rightarrow> real list \<Rightarrow> real list" where
  "ema_rec a prev [] = []"
| "ema_rec a prev (c # cs) = (c * a + prev * (1 - a)) # ema_rec a (c * a + prev * (1 - a)) cs"

text \<open>
  Modelled from the spec: the seeding rule of the exponential moving average. The
  specification asks for the rule of the library to be matched and names two, the
  simple-mean seed and the first-value seed; the library's is the first-value seed: the
  recurrence starts at the first close, \<open>EMA[0] = close[0]\<close>, and runs over the whole
  series.
\<close>

fun ewm :: "real \<Rightarrow> real list \<Rightarrow> real list" where
  "ewm a [] = []"
| "ewm a (c # cs) = c # ema_rec a c cs"

text \<open>
  Modelled from the spec: \<^verbatim>\<open>ta.trend.ema_indicator\<close>, absent from the source. The
  values of the recurrence with \<open>\<alpha> = 2 / (W + 1)\<close>, aligned one to one with the input;
  the entries at \<open>i < W - 1\<close> are the undefined marker.
\<close>

definition ema_indicator :: "real list \<Rightarrow> nat \<Rightarrow> real option list" where
  "ema_indicator close w =
     map (\<lambda>i. if i < w - 1 then None else Some (ewm (2 / (real w + 1)) close ! i))
       [0..<length close]"

text \<open>
  The assignment \<^verbatim>\<open>data[l] = c\<close> for a label \<open>l\<close> that is not one of a bar's:
  it replaces the column of that label where it stands, or appends a new last column.
\<close>

definition setitem :: "string \<Rightarrow> column \<Rightarrow> dataframe \<Rightarrow> dataframe" where
  "setitem l c df =
     df\<lparr>columns :=
          (if l \<in> set (map fst (columns df))
           then map (\<lambda>(k, v). (k, if k = l then c else v)) (columns df)
           else columns df @ [(l, c)])\<rparr>"

text \<open>
  \<^verbatim>\<open>add_technical_indicators\<close> (lines 42 to 48). \<^verbatim>\<open>data['Close'].iloc[:,0]\<close> is
  the close column of the one ticker. The value is the table returned, which is the
  argument updated in place.
\<close>

definition add_technical_indicators :: "dataframe \<Rightarrow> dataframe" where
  "add_technical_indicators data =
     (let data1 = setitem ''SMA_20'' (Floats (sma_indicator (map Close (bars data)) 20)) data;
          data2 = setitem ''EMA_20'' (Floats (ema_indicator (map Close (bars data1)) 20)) data1
      in data2)"

text \<open>The column of a label, \<^verbatim>\<open>data[l]\<close>, for a label that is not one of a bar's.\<close>

definition getitem :: "dataframe \<Rightarrow> string \<Rightarrow> column option" where
  "getitem df l = map_of (columns df) l"

section \<open>Example tables\<close>

text \<open>
  A daily download before normalisation: a naive index named \<^verbatim>\<open>Date\<close>, two rows, the
  close rising from 100 to 110.
\<close>

definition rising_bars :: "bar list" where
  "rising_bars =
     [\<lparr>Open = 99, High = 101, Low = 98, Close = 100, Volume = 10\<rparr>,
      \<lparr>Open = 100, High = 112, Low = 99, Close = 110, Volume = 5\<rparr>]"

definition daily_frame :: dataframe where
  "daily_frame =
     \<lparr>index = DatetimeIndex (Some ''Date'') None [0, 86400000000000],
      bars = rising_bars,
      columns = []\<rparr>"

text \<open>An intraday download: the index is named \<^verbatim>\<open>Datetime\<close> and carries a zone.\<close>

definition intraday_frame :: dataframe where
  "intraday_frame =
     \<lparr>index = DatetimeIndex (Some ''Datetime'') (Some ''UTC'') [0, 60000000000],
      bars = rising_bars,
      columns = []\<rparr>"

text \<open>The daily download as \<^verbatim>\<open>process_data\<close> returns it.\<close>

definition normalised_frame :: dataframe where
  "normalised_frame =
     \<lparr>index = RangeIndex 2,
      bars = rising_bars,
      columns = [(''Datetime'', Stamps (Some ''US/Eastern'') [0, 86400000000000])]\<rparr>"

text \<open>Tables whose first close is zero, with one row and with two.\<close>

definition zero_close_frame :: dataframe where
  "zero_close_frame =
     \<lparr>index = RangeIndex 1,
      bars = [\<lparr>Open = 0, High = 0, Low = 0, Close = 0, Volume = 0\<rparr>],
      columns = [(''Datetime'', Stamps (Some ''US/Eastern'') [0])]\<rparr>"

definition zero_reference_frame :: dataframe where
  "zero_reference_frame =
     \<lparr>index = RangeIndex 2,
      bars = [\<lparr>Open = 0, High = 1, Low = 0, Close = 0, Volume = 10\<rparr>,
              \<lparr>Open = 1, High = 3, Low = 1, Close = 2, Volume = 5\<rparr>],
      columns = [(''Datetime'', Stamps (Some ''US/Eastern'') [0, 60000000000])]\<rparr>"

text \<open>Two rows of volume \<open>2 ^ 62\<close> each.\<close>

definition heavy_volume_frame :: dataframe where
  "heavy_volume_frame =
     \<lparr>index = RangeIndex 2,
      bars = [\<lparr>Open = 99, High = 101, Low = 98, Close = 100, Volume = 4611686018427387904\<rparr>,
              \<lparr>Open = 100, High = 112, Low = 99, Close = 110, Volume = 4611686018427387904\<rparr>],
      columns = [(''Datetime'', Stamps (Some ''US/Eastern'') [0, 60000000000])]\<rparr>"

text \<open>A table with no row.\<close>

definition empty_frame :: dataframe where
  "empty_frame =
     \<lparr>index = RangeIndex 0, bars = [], columns = [(''Datetime'', Stamps (Some ''US/Eastern'') [])]\<rparr>"

text \<open>Twenty-one rows, the close of row \<open>k\<close> being \<open>k + 1\<close>.\<close>

definition ramp_bars :: "bar list" where
  "ramp_bars =
     map (\<lambda>k. \<lparr>Open = real k, High = real k + 1, Low = real k - 1, Close = real k, Volume = 100\<rparr>)
       [1..<22]"

definition ramp_frame :: dataframe where
  "ramp_frame =
     \<lparr>index = RangeIndex 21,
      bars = ramp_bars,
      columns = [(''Datetime'', Stamps (Some ''US/Eastern'') (map int [0..<21]))]\<rparr>"

section \<open>Properties\<close>

subsection \<open>The period to interval lookup\<close>

text \<open>
  C5. The period to interval lookup has exactly five entries: one day maps to one minute,
  one week to thirty minutes, one month to one day, one year to one week, and the
  unbounded period \<^verbatim>\<open>max\<close> to one week.
\<close>

theorem interval_mapping_exact:
  "interval_mapping ''1d'' = Some ''1m'' \<and>
   interval_mapping ''1wk'' = Some ''30m'' \<and>
   interval_mapping ''1mo'' = Some ''1d'' \<and>
   interval_mapping ''1y'' = Some ''1wk'' \<and>
   interval_mapping ''max'' = Some ''1wk'' \<and>
   dom interval_mapping = {''1d'', ''1wk'', ''1mo'', ''1y'', ''max''}"
  by (auto simp: interval_mapping_def)

subsection \<open>Summary metrics\<close>

lemma calculate_metrics_empty:
  "bars data = [] \<Longrightarrow> snd (calculate_metrics data) = Inl IndexError"
  by (simp add: calculate_metrics_def)

lemma calculate_metrics_zero:
  "bars data \<noteq> [] \<Longrightarrow> Close (hd (bars data)) = 0 \<Longrightarrow>
   snd (calculate_metrics data) = Inl ZeroDivisionError"
  by (cases "bars data") (simp_all add: calculate_metrics_def py_truediv_def)

lemma calculate_metrics_value:
  "bars data \<noteq> [] \<Longrightarrow> Close (hd (bars data)) \<noteq> 0 \<Longrightarrow>
   snd (calculate_metrics data) =
     Inr (Close (last (bars data)),
          Close (last (bars data)) - Close (hd (bars data)),
          (Close (last (bars data)) - Close (hd (bars data))) / Close (hd (bars data)) * 100,
          Max (set (map High (bars data))),
          Min (set (map Low (bars data))),
          sint (sum_list (map Volume (bars data))))"
  by (cases "bars data") (simp_all add: calculate_metrics_def py_truediv_def Let_def last_map)

text \<open>
  On a table with one row whose close is zero, \<^verbatim>\<open>calculate_metrics\<close> does not
  succeed: the division of line 36 raises.
\<close>

theorem calculate_metrics_nonempty_fails:
  "bars zero_close_frame \<noteq> [] \<and>
   snd (calculate_metrics zero_close_frame) = Inl ZeroDivisionError"
  by (simp add: calculate_metrics_def py_truediv_def zero_close_frame_def)

text \<open>
  C1, as the code has it. On a table with no row \<^verbatim>\<open>calculate_metrics\<close> fails, with
  the \<^verbatim>\<open>IndexError\<close> of the positional read of the last close. On a table with a row
  whose first close is not zero it succeeds and returns the tuple of six metrics. On a
  table with a row whose first close is zero it fails with \<^verbatim>\<open>ZeroDivisionError\<close>.
\<close>

theorem calculate_metrics_outcome:
  "(bars data = [] \<longrightarrow> snd (calculate_metrics data) = Inl IndexError) \<and>
   (bars data \<noteq> [] \<and> Close (hd (bars data)) \<noteq> 0 \<longrightarrow>
      (\<exists>last_close change pct_change high low volume.
         snd (calculate_metrics data) =
           Inr (last_close, change, pct_change, high, low, volume))) \<and>
   (bars data \<noteq> [] \<and> Close (hd (bars data)) = 0 \<longrightarrow>
      snd (calculate_metrics data) = Inl ZeroDivisionError)"
  by (simp add: calculate_metrics_empty calculate_metrics_zero calculate_metrics_value)

theorem calculate_metrics_outcome_witness:
  "bars empty_frame = [] \<and>
   snd (calculate_metrics empty_frame) = Inl IndexError \<and>
   bars normalised_frame \<noteq> [] \<and> Close (hd (bars normalised_frame)) \<noteq> 0 \<and>
   (\<exists>last_close change pct_change high low volume.
      snd (calculate_metrics normalised_frame) =
        Inr (last_close, change, pct_change, high, low, volume)) \<and>
   bars zero_reference_frame \<noteq> [] \<and> Close (hd (bars zero_reference_frame)) = 0 \<and>
   snd (calculate_metrics zero_reference_frame) = Inl ZeroDivisionError"
proof -
  have e: "bars empty_frame = []"
    by (simp add: empty_frame_def)
  have n: "bars normalised_frame \<noteq> [] \<and> Close (hd (bars normalised_frame)) \<noteq> 0"
    by (simp add: normalised_frame_def rising_bars_def)
  have z: "bars zero_reference_frame \<noteq> [] \<and> Close (hd (bars zero_reference_frame)) = 0"
    by (simp add: zero_reference_frame_def)
  show ?thesis
    using e n z calculate_metrics_outcome [of empty_frame]
      calculate_metrics_outcome [of normalised_frame]
      calculate_metrics_outcome [of zero_reference_frame]
    by simp
qed

lemma calculate_metrics_traced_result:
  "snd (calculate_metrics_traced data) = snd (calculate_metrics data)"
  by (simp add: calculate_metrics_traced_def calculate_metrics_def Let_def
      split: list.splits sum.splits)

text \<open>
  On a table whose first close is zero the division of line 36 is evaluated, with the
  zero divisor, right after the subtraction of line 35, and its exception is the outcome
  of the call.
\<close>

theorem pct_change_division_reached:
  "Close (hd (bars zero_reference_frame)) = 0 \<and>
   calculate_metrics_traced zero_reference_frame =
     ([Sub 2 0, TrueDiv 2 0], Inl ZeroDivisionError) \<and>
   snd (calculate_metrics zero_reference_frame) = Inl ZeroDivisionError"
  by (simp add: calculate_metrics_traced_def calculate_metrics_def py_truediv_def
      zero_reference_frame_def)

text \<open>
  C2, as the code has it. The percent change has no guard: on every table with a row whose
  first close is zero, the operations evaluated are the subtraction of line 35 and then
  the division of line 36 with the zero divisor, nothing being compared before it, and
  \<^verbatim>\<open>calculate_metrics\<close> fails with the \<^verbatim>\<open>ZeroDivisionError\<close> that this
  division raises; no metric is returned.
\<close>

theorem pct_change_unguarded:
  assumes "bars data \<noteq> []" and "Close (hd (bars data)) = 0"
  shows "calculate_metrics_traced data =
           ([Sub (Close (last (bars data))) 0, TrueDiv (Close (last (bars data))) 0],
            Inl ZeroDivisionError) \<and>
         snd (calculate_metrics data) = Inl ZeroDivisionError"
proof -
  have run: "calculate_metrics_traced data =
      ([Sub (Close (last (bars data))) 0, TrueDiv (Close (last (bars data))) 0],
       Inl ZeroDivisionError)"
    using assms
    by (cases "bars data")
      (simp_all add: calculate_metrics_traced_def py_truediv_def Let_def last_map)
  then have "snd (calculate_metrics data) = Inl ZeroDivisionError"
    using calculate_metrics_traced_result [of data] by simp
  with run show ?thesis
    by simp
qed

theorem pct_change_unguarded_witness:
  "bars zero_close_frame \<noteq> [] \<and> Close (hd (bars zero_close_frame)) = 0 \<and>
   calculate_metrics_traced zero_close_frame = ([Sub 0 0, TrueDiv 0 0], Inl ZeroDivisionError) \<and>
   snd (calculate_metrics zero_close_frame) = Inl ZeroDivisionError"
proof -
  have h: "bars zero_close_frame \<noteq> []" "Close (hd (bars zero_close_frame)) = 0"
    by (simp_all add: zero_close_frame_def)
  have l: "Close (last (bars zero_close_frame)) = 0"
    by (simp add: zero_close_frame_def)
  show ?thesis
    using h pct_change_unguarded [OF h] by (simp add: l)
qed

lemma sum_list_word_of_int:
  "(sum_list ws :: 64 word) = word_of_int (\<Sum>w \<leftarrow> ws. sint w)"
  by (induction ws) simp_all

lemma sint_sum_list:
  "sint (sum_list ws :: 64 word) =
     ((\<Sum>w \<leftarrow> ws. sint w) + 2 ^ 63) mod 2 ^ 64 - 2 ^ 63"
  by (subst sum_list_word_of_int) (simp add: int_word_sint)

text \<open>
  On two rows of volume \<open>2 ^ 62\<close> each, the volume returned is not the sum of the
  volumes, \<open>2 ^ 63\<close>, but \<open>- 2 ^ 63\<close>: the 64-bit sum of line 39 has wrapped around.
\<close>

theorem volume_sum_wraps:
  "bars heavy_volume_frame \<noteq> [] \<and> Close (hd (bars heavy_volume_frame)) \<noteq> 0 \<and>
   sum_list (map (sint \<circ> Volume) (bars heavy_volume_frame)) = 9223372036854775808 \<and>
   snd (calculate_metrics heavy_volume_frame) =
     Inr (110, 10, 10, 112, 98, - 9223372036854775808)"
  by (simp add: calculate_metrics_def py_truediv_def heavy_volume_frame_def)

text \<open>
  C8, as the code has it. On every table with a row (and a first close that is not zero,
  as every price of a canonical series is positive), the high returned by
  \<^verbatim>\<open>calculate_metrics\<close> is at least the high of every bar and is the high of some
  bar, the low is at most the low of every bar and is the low of some bar, and the volume
  is the sum of the volumes of all bars wrapped to a signed 64-bit integer: it is that sum
  whenever the sum lies between \<open>- 2 ^ 63\<close> and \<open>2 ^ 63 - 1\<close>.
\<close>

theorem calculate_metrics_high_low_volume:
  assumes "bars data \<noteq> []" and "Close (hd (bars data)) \<noteq> 0"
  shows "\<exists>last_close change pct_change high low volume.
           snd (calculate_metrics data) =
             Inr (last_close, change, pct_change, high, low, volume) \<and>
           (\<forall>b \<in> set (bars data). High b \<le> high) \<and>
           (\<forall>b \<in> set (bars data). low \<le> Low b) \<and>
           high \<in> High ` set (bars data) \<and>
           low \<in> Low ` set (bars data) \<and>
           volume = ((\<Sum>b \<leftarrow> bars data. sint (Volume b)) + 2 ^ 63) mod 2 ^ 64 - 2 ^ 63 \<and>
           (- (2 ^ 63) \<le> (\<Sum>b \<leftarrow> bars data. sint (Volume b)) \<and>
            (\<Sum>b \<leftarrow> bars data. sint (Volume b)) < 2 ^ 63 \<longrightarrow>
              volume = (\<Sum>b \<leftarrow> bars data. sint (Volume b)))"
proof -
  have hi: "\<forall>b \<in> set (bars data). High b \<le> Max (set (map High (bars data)))"
    by simp
  have lo: "\<forall>b \<in> set (bars data). Min (set (map Low (bars data))) \<le> Low b"
    by simp
  have hi_in: "Max (set (map High (bars data))) \<in> High ` set (bars data)"
    using assms(1) Max_in [of "set (map High (bars data))"] by simp
  have lo_in: "Min (set (map Low (bars data))) \<in> Low ` set (bars data)"
    using assms(1) Min_in [of "set (map Low (bars data))"] by simp
  have vol: "sint (sum_list (map Volume (bars data))) =
      ((\<Sum>b \<leftarrow> bars data. sint (Volume b)) + 2 ^ 63) mod 2 ^ 64 - 2 ^ 63"
    using sint_sum_list [of "map Volume (bars data)"] by (simp add: comp_def)
  have exact: "sint (sum_list (map Volume (bars data))) = (\<Sum>b \<leftarrow> bars data. sint (Volume b))"
    if "- (2 ^ 63) \<le> (\<Sum>b \<leftarrow> bars data. sint (Volume b))"
      "(\<Sum>b \<leftarrow> bars data. sint (Volume b)) < 2 ^ 63"
    using that unfolding vol by simp
  show ?thesis
    using calculate_metrics_value [OF assms] hi lo hi_in lo_in vol exact by blast
qed

theorem calculate_metrics_high_low_volume_witness:
  "bars normalised_frame \<noteq> [] \<and> Close (hd (bars normalised_frame)) \<noteq> 0 \<and>
   - (2 ^ 63) \<le> (\<Sum>b \<leftarrow> bars normalised_frame. sint (Volume b)) \<and>
   (\<Sum>b \<leftarrow> bars normalised_frame. sint (Volume b)) < 2 ^ 63 \<and>
   (\<exists>last_close change pct_change high low volume.
      snd (calculate_metrics normalised_frame) =
        Inr (last_close, change, pct_change, high, low, volume) \<and>
      high = 112 \<and> low = 98 \<and> volume = 15)"
proof -
  have h: "bars normalised_frame \<noteq> []" "Close (hd (bars normalised_frame)) \<noteq> 0"
    by (simp_all add: normalised_frame_def rising_bars_def)
  have s: "(\<Sum>b \<leftarrow> bars normalised_frame. sint (Volume b)) = 15"
    by (simp add: normalised_frame_def rising_bars_def)
  obtain last_close change pct_change high low volume where
    r: "snd (calculate_metrics normalised_frame) =
          Inr (last_close, change, pct_change, high, low, volume)"
    and hi: "\<forall>b \<in> set (bars normalised_frame). High b \<le> high"
    and lo: "\<forall>b \<in> set (bars normalised_frame). low \<le> Low b"
    and hi_in: "high \<in> High ` set (bars normalised_frame)"
    and lo_in: "low \<in> Low ` set (bars normalised_frame)"
    and v: "- (2 ^ 63) \<le> (\<Sum>b \<leftarrow> bars normalised_frame. sint (Volume b)) \<and>
            (\<Sum>b \<leftarrow> bars normalised_frame. sint (Volume b)) < 2 ^ 63 \<longrightarrow>
              volume = (\<Sum>b \<leftarrow> bars normalised_frame. sint (Volume b))"
    using calculate_metrics_high_low_volume [OF h] by blast
  have "high = 112"
    using hi hi_in by (auto simp: normalised_frame_def rising_bars_def)
  moreover have "low = 98"
    using lo lo_in by (auto simp: normalised_frame_def rising_bars_def)
  moreover have "volume = 15"
    using v unfolding s by simp
  ultimately show ?thesis
    using h r unfolding s by simp
qed


text \<open>
  C9. On every table with a row and a first close that is not zero, the percent change
  returned by \<^verbatim>\<open>calculate_metrics\<close> is zero exactly when the last close equals the
  first close; and a first close of 100 with a last close of 110 gives a change of 10 and
  a percent change of 10.
\<close>

theorem pct_change_zero_iff:
  assumes "bars data \<noteq> []" and "Close (hd (bars data)) \<noteq> 0"
  shows "\<exists>last_close change pct_change high low volume.
           snd (calculate_metrics data) =
             Inr (last_close, change, pct_change, high, low, volume) \<and>
           last_close = Close (last (bars data)) \<and>
           change = Close (last (bars data)) - Close (hd (bars data)) \<and>
           (pct_change = 0 \<longleftrightarrow> Close (last (bars data)) = Close (hd (bars data))) \<and>
           (Close (hd (bars data)) = 100 \<and> Close (last (bars data)) = 110 \<longrightarrow>
              change = 10 \<and> pct_change = 10)"
  using calculate_metrics_value [OF assms] assms(2) by simp

theorem pct_change_zero_iff_witness:
  "bars normalised_frame \<noteq> [] \<and> Close (hd (bars normalised_frame)) \<noteq> 0 \<and>
   Close (hd (bars normalised_frame)) = 100 \<and> Close (last (bars normalised_frame)) = 110 \<and>
   (\<exists>last_close change pct_change high low volume.
      snd (calculate_metrics normalised_frame) =
        Inr (last_close, change, pct_change, high, low, volume) \<and>
      last_close = 110 \<and> change = 10 \<and> pct_change = 10)"
proof -
  have h: "bars normalised_frame \<noteq> []" "Close (hd (bars normalised_frame)) \<noteq> 0"
    by (simp_all add: normalised_frame_def rising_bars_def)
  have c: "Close (hd (bars normalised_frame)) = 100" "Close (last (bars normalised_frame)) = 110"
    by (simp_all add: normalised_frame_def rising_bars_def)
  show ?thesis
    using h c pct_change_zero_iff [OF h] by auto
qed

subsection \<open>Normalisation\<close>

lemma labels_index_update: "labels (df\<lparr>index := i\<rparr>) = labels df"
  by (simp add: labels_def)

lemma index_label_index_update: "index_label (df\<lparr>index := i\<rparr>) n = index_label df n"
  by (simp add: index_label_def labels_index_update)

lemma process_data_DatetimeIndex:
  assumes "index data = DatetimeIndex n z vs"
  shows "process_data data =
     (if index_label data n \<in> set (labels data) then Inl ValueError
      else Inr (rename [''Date'' \<mapsto> ''Datetime'']
             (data\<lparr>index := RangeIndex (length vs),
                   columns := (index_label data n, Stamps (Some ''US/Eastern'') vs) # columns data\<rparr>)))"
  using assms
  by (cases z)
    (simp_all add: process_data_def reset_index_def Let_def labels_index_update
      index_label_index_update)

lemma process_data_RangeIndex:
  "index data = RangeIndex k \<Longrightarrow> process_data data = Inl AttributeError"
  by (simp add: process_data_def)

lemma process_data_Inr_index:
  assumes "process_data data = Inr data'"
  shows "\<exists>k. index data' = RangeIndex k"
proof (cases "index data")
  case (DatetimeIndex n z vs)
  with assms show ?thesis
    by (auto simp: process_data_DatetimeIndex rename_def split: if_splits)
next
  case (RangeIndex k)
  with assms show ?thesis
    by (simp add: process_data_RangeIndex)
qed

text \<open>
  The daily download is normalised once; normalising the result again raises
  \<^verbatim>\<open>AttributeError\<close>, for the index is then a \<^verbatim>\<open>RangeIndex\<close>, which has no
  \<^verbatim>\<open>tzinfo\<close>.
\<close>

theorem process_data_twice_fails:
  "process_data daily_frame = Inr normalised_frame \<and>
   process_data normalised_frame = Inl AttributeError"
  by (simp add: process_data_def daily_frame_def normalised_frame_def reset_index_def
      rename_def index_label_def labels_def)

text \<open>
  C4, as the code has it. \<^verbatim>\<open>process_data\<close> is not idempotent: whenever it succeeds,
  the table it returns has a positional \<^verbatim>\<open>RangeIndex\<close> and differs from its argument,
  and applying \<^verbatim>\<open>process_data\<close> to that table again fails with
  \<^verbatim>\<open>AttributeError\<close>.
\<close>

theorem process_data_not_idempotent:
  assumes "process_data data = Inr data'"
  shows "(\<exists>k. index data' = RangeIndex k) \<and>
         process_data data' = Inl AttributeError \<and>
         data' \<noteq> data"
proof -
  obtain k where k: "index data' = RangeIndex k"
    using process_data_Inr_index [OF assms] by blast
  have again: "process_data data' = Inl AttributeError"
    using k by (rule process_data_RangeIndex)
  have "data' \<noteq> data"
    using assms again by auto
  with k again show ?thesis
    by blast
qed

theorem process_data_not_idempotent_witness:
  "process_data intraday_frame =
     Inr \<lparr>index = RangeIndex 2, bars = rising_bars,
          columns = [(''Datetime'', Stamps (Some ''US/Eastern'') [0, 60000000000])]\<rparr> \<and>
   process_data
     \<lparr>index = RangeIndex 2, bars = rising_bars,
      columns = [(''Datetime'', Stamps (Some ''US/Eastern'') [0, 60000000000])]\<rparr>
     = Inl AttributeError"
proof -
  have h: "process_data intraday_frame =
     Inr \<lparr>index = RangeIndex 2, bars = rising_bars,
          columns = [(''Datetime'', Stamps (Some ''US/Eastern'') [0, 60000000000])]\<rparr>"
    by (simp add: process_data_def intraday_frame_def reset_index_def rename_def
        index_label_def labels_def)
  show ?thesis
    using h process_data_not_idempotent [OF h] by simp
qed

text \<open>
  C7. On every table with a timestamp index (whose name is not already a column label),
  \<^verbatim>\<open>process_data\<close> brings the timestamps to \<^verbatim>\<open>US/Eastern\<close> by the two-case rule:
  a naive index is first localised as UTC and then converted, an index with a zone is
  converted directly, and neither step fails. The instants and their order are kept: they
  become the first column of the result, in \<^verbatim>\<open>US/Eastern\<close>; the rows and the other
  columns keep their values and their order, a label \<^verbatim>\<open>Date\<close> becoming
  \<^verbatim>\<open>Datetime\<close>.
\<close>

theorem process_data_timezone:
  assumes "index data = DatetimeIndex n z vs"
    and "index_label data n \<notin> set (labels data)"
  shows "\<exists>i data'.
           (if z = None
            then \<exists>u. tz_localize_UTC (index data) = Inr u \<and> tz_convert ''US/Eastern'' u = Inr i
            else tz_convert ''US/Eastern'' (index data) = Inr i) \<and>
           i = DatetimeIndex n (Some ''US/Eastern'') vs \<and>
           process_data data = Inr data' \<and>
           index data' = RangeIndex (length vs) \<and>
           bars data' = bars data \<and>
           columns data' =
             (if index_label data n = ''Date'' then ''Datetime'' else index_label data n,
              Stamps (Some ''US/Eastern'') vs) #
             map (\<lambda>(l, c). (if l = ''Date'' then ''Datetime'' else l, c)) (columns data)"
proof -
  have relabel: "(\<lambda>(l, c). (case [''Date'' \<mapsto> ''Datetime''] l of None \<Rightarrow> l | Some l' \<Rightarrow> l', c))
               = (\<lambda>(l, c :: column). (if l = ''Date'' then ''Datetime'' else l, c))"
    by (rule ext) (simp add: case_prod_beta)
  have coerce: "if z = None
            then \<exists>u. tz_localize_UTC (index data) = Inr u \<and>
                     tz_convert ''US/Eastern'' u = Inr (DatetimeIndex n (Some ''US/Eastern'') vs)
            else tz_convert ''US/Eastern'' (index data) = Inr (DatetimeIndex n (Some ''US/Eastern'') vs)"
    using assms(1) by (cases z) simp_all
  have run: "process_data data =
       Inr (rename [''Date'' \<mapsto> ''Datetime'']
             (data\<lparr>index := RangeIndex (length vs),
                   columns := (index_label data n, Stamps (Some ''US/Eastern'') vs) # columns data\<rparr>))"
    using assms by (simp add: process_data_DatetimeIndex)
  show ?thesis
    using coerce run unfolding rename_def relabel by simp
qed

theorem process_data_timezone_witness:
  "(\<exists>u. tz_localize_UTC (index daily_frame) = Inr u \<and>
        tz_convert ''US/Eastern'' u =
          Inr (DatetimeIndex (Some ''Date'') (Some ''US/Eastern'') [0, 86400000000000])) \<and>
   (\<exists>data'. process_data daily_frame = Inr data' \<and> index data' = RangeIndex 2 \<and>
        bars data' = rising_bars \<and>
        columns data' = [(''Datetime'', Stamps (Some ''US/Eastern'') [0, 86400000000000])]) \<and>
   tz_convert ''US/Eastern'' (index intraday_frame) =
     Inr (DatetimeIndex (Some ''Datetime'') (Some ''US/Eastern'') [0, 60000000000]) \<and>
   (\<exists>data'. process_data intraday_frame = Inr data' \<and> index data' = RangeIndex 2 \<and>
        bars data' = rising_bars \<and>
        columns data' = [(''Datetime'', Stamps (Some ''US/Eastern'') [0, 60000000000])])"
proof -
  have d: "index daily_frame = DatetimeIndex (Some ''Date'') None [0, 86400000000000]"
    "index_label daily_frame (Some ''Date'') \<notin> set (labels daily_frame)"
    by (simp_all add: daily_frame_def index_label_def labels_def)
  have i: "index intraday_frame = DatetimeIndex (Some ''Datetime'') (Some ''UTC'') [0, 60000000000]"
    "index_label intraday_frame (Some ''Datetime'') \<notin> set (labels intraday_frame)"
    by (simp_all add: intraday_frame_def index_label_def labels_def)
  have l: "index_label daily_frame (Some ''Date'') = ''Date''"
    "index_label intraday_frame (Some ''Datetime'') = ''Datetime''"
    by (simp_all add: index_label_def)
  have c: "columns daily_frame = []" "columns intraday_frame = []"
    "bars daily_frame = rising_bars" "bars intraday_frame = rising_bars"
    by (simp_all add: daily_frame_def intraday_frame_def)
  show ?thesis
    using process_data_timezone [OF d] process_data_timezone [OF i] unfolding l c
    by auto
qed

subsection \<open>Technical indicators\<close>

lemma length_sma_indicator: "length (sma_indicator close w) = length close"
  by (simp add: sma_indicator_def)

lemma nth_sma_indicator:
  "i < length close \<Longrightarrow>
   sma_indicator close w ! i =
     (if i < w - 1 then None else Some (mean (take w (drop (i + 1 - w) close))))"
  by (simp add: sma_indicator_def)

lemma sum_list_window:
  assumes "k + w \<le> length xs"
  shows "sum_list (take w (drop k xs)) = (\<Sum>j = k..<k + w. xs ! j)"
proof -
  have "sum_list (take w (drop k xs)) = (\<Sum>i = 0..<w. take w (drop k xs) ! i)"
    using assms by (simp add: sum_list_sum_nth)
  also have "\<dots> = (\<Sum>i = 0..<w. xs ! (i + k))"
    using assms by (intro sum.cong) (simp_all add: add.commute)
  also have "\<dots> = (\<Sum>j = k..<k + w. xs ! j)"
    using sum.shift_bounds_nat_ivl[of "\<lambda>j. xs ! j" 0 k w] by (simp add: add.commute)
  finally show ?thesis .
qed

lemma mean_window:
  assumes "0 < w" "w - 1 \<le> i" "i < length xs"
  shows "mean (take w (drop (i + 1 - w) xs)) = (\<Sum>j = i + 1 - w..i. xs ! j) / real w"
proof -
  have le: "(i + 1 - w) + w \<le> length xs" using assms by simp
  have "{i + 1 - w..<(i + 1 - w) + w} = {i + 1 - w..i}" using assms by auto
  with sum_list_window[OF le] have "sum_list (take w (drop (i + 1 - w) xs)) = (\<Sum>j = i + 1 - w..i. xs ! j)"
    by simp
  moreover have "length (take w (drop (i + 1 - w) xs)) = w" using assms by simp
  ultimately show ?thesis by (simp add: mean_def)
qed

lemma length_ema_rec: "length (ema_rec a p cs) = length cs"
  by (induction cs arbitrary: p) simp_all

lemma nth_ema_rec:
  "k < length cs \<Longrightarrow>
   (p # ema_rec a p cs) ! Suc k = cs ! k * a + (p # ema_rec a p cs) ! k * (1 - a)"
proof (induction cs arbitrary: p k)
  case Nil
  then show ?case by simp
next
  case (Cons c cs)
  show ?case
  proof (cases k)
    case 0
    then show ?thesis by simp
  next
    case (Suc k')
    with Cons.prems have "k' < length cs" by simp
    from Cons.IH[OF this, of "c * a + p * (1 - a)"] Suc show ?thesis by simp
  qed
qed

lemma length_ewm: "length (ewm a xs) = length xs"
  by (cases xs) (simp_all add: length_ema_rec)

lemma ewm_first: "xs \<noteq> [] \<Longrightarrow> ewm a xs ! 0 = xs ! 0"
  by (cases xs) simp_all

lemma ewm_step:
  assumes "0 < i" and "i < length xs"
  shows "ewm a xs ! i = xs ! i * a + ewm a xs ! (i - 1) * (1 - a)"
proof (cases xs)
  case Nil
  with assms show ?thesis by simp
next
  case (Cons c cs)
  obtain k where k: "i = Suc k"
    using assms(1) by (cases i) simp_all
  have "k < length cs"
    using assms(2) Cons k by simp
  from nth_ema_rec [OF this, of c a] show ?thesis
    by (simp add: Cons k)
qed

lemma length_ema_indicator: "length (ema_indicator close w) = length close"
  by (simp add: ema_indicator_def)

lemma nth_ema_indicator:
  "i < length close \<Longrightarrow>
   ema_indicator close w ! i =
     (if i < w - 1 then None else Some (ewm (2 / (real w + 1)) close ! i))"
  by (simp add: ema_indicator_def)

lemma ema_indicator_example:
  "ema_indicator [1, 2, 3, 4] 3 = [None, None, Some (9 / 4), Some (25 / 8)]"
  by code_simp

lemma map_of_relabel:
  "map_of (map (\<lambda>(k, v). (k, if k = l then c else v)) xs) k =
     (if k = l then map_option (\<lambda>v. c) (map_of xs k) else map_of xs k)"
  by (induction xs) auto

lemma getitem_setitem:
  "getitem (setitem l c df) k = (if k = l then Some c else getitem df k)"
proof (cases "map_of (columns df) l")
  case None
  then have "l \<notin> fst ` set (columns df)"
    by (simp add: map_of_eq_None_iff)
  with None show ?thesis
    by (simp add: getitem_def setitem_def map_add_def split: option.splits)
next
  case (Some v)
  then have "l \<in> fst ` set (columns df)"
    by (metis map_of_eq_None_iff option.distinct(1))
  with Some show ?thesis
    by (simp add: getitem_def setitem_def map_of_relabel)
qed

lemma filter_relabel:
  "filter (\<lambda>(k, v). k \<noteq> l \<and> P k) (map (\<lambda>(k, v). (k, if k = l then c else v)) xs)
      = filter (\<lambda>(k, v). k \<noteq> l \<and> P k) xs"
  by (induction xs) auto

lemma fst_relabel:
  "map (fst \<circ> (\<lambda>(k, v). (k, if k = l then c else v))) xs = map fst xs"
  by (induction xs) auto

lemma labels_setitem:
  "map fst (columns (setitem l c df)) =
     (if l \<in> set (map fst (columns df)) then map fst (columns df) else map fst (columns df) @ [l])"
  by (simp add: setitem_def fst_relabel)

lemma index_setitem: "index (setitem l c df) = index df"
  by (simp add: setitem_def)

lemma bars_setitem: "bars (setitem l c df) = bars df"
  by (simp add: setitem_def)

lemma filter_setitem:
  "filter (\<lambda>(k, v). k \<noteq> l \<and> P k) (columns (setitem l c df)) =
   filter (\<lambda>(k, v). k \<noteq> l \<and> P k) (columns df)"
  by (simp add: setitem_def filter_relabel)

lemma columns_setitem_new:
  "l \<notin> set (map fst (columns df)) \<Longrightarrow> columns (setitem l c df) = columns df @ [(l, c)]"
  by (simp add: setitem_def)

lemma add_technical_indicators_unfold:
  "add_technical_indicators data =
     setitem ''EMA_20'' (Floats (ema_indicator (map Close (bars data)) 20))
       (setitem ''SMA_20'' (Floats (sma_indicator (map Close (bars data)) 20)) data)"
  by (simp add: add_technical_indicators_def Let_def bars_setitem)

text \<open>
  C6. For every table, the column \<^verbatim>\<open>SMA_20\<close> that \<^verbatim>\<open>add_technical_indicators\<close>
  stores has one entry per row; its first 19 entries are the undefined marker, and its
  entry at every index \<open>i \<ge> 19\<close> is the arithmetic mean of the closes of the rows
  \<open>i - 19, \<dots>, i\<close>; in particular the entry at index 19 is the mean of the first 20
  closes.
\<close>

theorem sma_20_column:
  "\<exists>sma. getitem (add_technical_indicators data) ''SMA_20'' = Some (Floats sma) \<and>
     length sma = length (bars data) \<and>
     (\<forall>i. i < length (bars data) \<longrightarrow>
        sma ! i = (if i < 19 then None
                   else Some ((\<Sum>j = i - 19..i. Close (bars data ! j)) / 20))) \<and>
     (19 < length (bars data) \<longrightarrow>
        sma ! 19 = Some ((\<Sum>j = 0..19. Close (bars data ! j)) / 20))"
proof -
  let ?close = "map Close (bars data)"
  let ?sma = "sma_indicator ?close 20"
  have col: "getitem (add_technical_indicators data) ''SMA_20'' = Some (Floats ?sma)"
    by (simp add: add_technical_indicators_unfold getitem_setitem)
  have len: "length ?sma = length (bars data)"
    by (simp add: length_sma_indicator)
  have entry: "?sma ! i = (if i < 19 then None
                   else Some ((\<Sum>j = i - 19..i. Close (bars data ! j)) / 20))"
    if i: "i < length (bars data)" for i
  proof (cases "i < 19")
    case True
    with i show ?thesis by (simp add: nth_sma_indicator)
  next
    case False
    then have "mean (take 20 (drop (i + 1 - 20) ?close)) = (\<Sum>j = i + 1 - 20..i. ?close ! j) / real (20::nat)"
      using i by (intro mean_window) simp_all
    moreover have "i + 1 - 20 = i - 19" by simp
    moreover have "(\<Sum>j = i - 19..i. ?close ! j) = (\<Sum>j = i - 19..i. Close (bars data ! j))"
      using i by (intro sum.cong) simp_all
    ultimately have "mean (take 20 (drop (i + 1 - 20) ?close)) = (\<Sum>j = i - 19..i. Close (bars data ! j)) / 20"
      by simp
    with False i show ?thesis by (simp add: nth_sma_indicator)
  qed
  have "19 < length (bars data) \<longrightarrow> ?sma ! 19 = Some ((\<Sum>j = 0..19. Close (bars data ! j)) / 20)"
    using entry [of 19] by simp
  with col len entry show ?thesis by blast
qed

lemma ramp_sums:
  "(\<Sum>j = 0..19. Close (ramp_bars ! j)) / 20 = 21 / 2"
  "(\<Sum>j = 1..20. Close (ramp_bars ! j)) / 20 = 23 / 2"
  by code_simp+

theorem sma_20_column_witness:
  "\<exists>sma. getitem (add_technical_indicators ramp_frame) ''SMA_20'' = Some (Floats sma) \<and>
     length sma = 21 \<and> sma ! 18 = None \<and> sma ! 19 = Some (21 / 2) \<and> sma ! 20 = Some (23 / 2)"
proof -
  have b: "bars ramp_frame = ramp_bars"
    by (simp add: ramp_frame_def)
  have n: "length ramp_bars = 21"
    by (simp add: ramp_bars_def)
  obtain sma where
    col: "getitem (add_technical_indicators ramp_frame) ''SMA_20'' = Some (Floats sma)"
    and len: "length sma = length (bars ramp_frame)"
    and entry: "\<forall>i. i < length (bars ramp_frame) \<longrightarrow>
        sma ! i = (if i < 19 then None
                   else Some ((\<Sum>j = i - 19..i. Close (bars ramp_frame ! j)) / 20))"
    using sma_20_column [of ramp_frame] by blast
  have "sma ! 18 = None"
    using entry [rule_format, of 18] by (simp add: b n)
  moreover have "sma ! 19 = Some (21 / 2)"
    using entry [rule_format, of 19] ramp_sums(1) by (simp add: b n)
  moreover have "sma ! 20 = Some (23 / 2)"
    using entry [rule_format, of 20] ramp_sums(2) by (simp add: b n)
  ultimately show ?thesis
    using col len by (simp add: b n)
qed

text \<open>
  On the twenty-one rows of closes 1 to 21, the entry of \<^verbatim>\<open>EMA_20\<close> at index 19 is
  not the entry of \<^verbatim>\<open>SMA_20\<close> there, the mean \<open>21 / 2\<close> of the first 20 closes.
\<close>

theorem ema_seed_differs:
  "getitem (add_technical_indicators ramp_frame) ''SMA_20'' =
     Some (Floats (sma_indicator (map Close ramp_bars) 20)) \<and>
   getitem (add_technical_indicators ramp_frame) ''EMA_20'' =
     Some (Floats (ema_indicator (map Close ramp_bars) 20)) \<and>
   sma_indicator (map Close ramp_bars) 20 ! 19 = Some (21 / 2) \<and>
   ema_indicator (map Close ramp_bars) 20 ! 19 = Some (20 - 19 / 2 * (1 - (19 / 21) ^ 19)) \<and>
   ema_indicator (map Close ramp_bars) 20 ! 19 \<noteq> sma_indicator (map Close ramp_bars) 20 ! 19"
proof -
  have b: "bars ramp_frame = ramp_bars"
    by (simp add: ramp_frame_def)
  have s: "sma_indicator (map Close ramp_bars) 20 ! 19 = Some (21 / 2)"
    by code_simp
  have e: "ema_indicator (map Close ramp_bars) 20 ! 19 = Some (20 - 19 / 2 * (1 - (19 / 21) ^ 19))"
    by code_simp
  have ne: "(20 - 19 / 2 * (1 - (19 / 21) ^ 19) :: real) \<noteq> 21 / 2"
    by code_simp
  show ?thesis
    using s e ne by (simp add: add_technical_indicators_unfold getitem_setitem b)
qed

text \<open>
  C3, as the code has it. For every table with at least 20 rows, the column
  \<^verbatim>\<open>EMA_20\<close> that \<^verbatim>\<open>add_technical_indicators\<close> stores has one entry per row and
  is undefined before index 19. It is not seeded with the simple mean at index 19: from
  index 19 on its entries are the values of the recurrence
  \<open>EMA[i] = close[i] * \<alpha> + EMA[i - 1] * (1 - \<alpha>)\<close> with \<open>\<alpha> = 2 / 21\<close> started at the
  first row, \<open>EMA[0] = close[0]\<close>, while the entry of \<^verbatim>\<open>SMA_20\<close> at index 19 is the
  mean of the first 20 closes. From index 20 on every entry follows from the entry before
  it by the recurrence.
\<close>

theorem ema_20_column:
  assumes "20 \<le> length (bars data)"
  shows "\<exists>sma ema e.
     getitem (add_technical_indicators data) ''SMA_20'' = Some (Floats sma) \<and>
     getitem (add_technical_indicators data) ''EMA_20'' = Some (Floats ema) \<and>
     length ema = length (bars data) \<and>
     e 0 = Close (bars data ! 0) \<and>
     (\<forall>i. 0 < i \<and> i < length (bars data) \<longrightarrow>
        e i = Close (bars data ! i) * (2 / 21) + e (i - 1) * (1 - 2 / 21)) \<and>
     (\<forall>i. i < length (bars data) \<longrightarrow> ema ! i = (if i < 19 then None else Some (e i))) \<and>
     sma ! 19 = Some (mean (take 20 (map Close (bars data)))) \<and>
     (\<forall>i. 20 \<le> i \<and> i < length (bars data) \<longrightarrow>
        (\<exists>x p. ema ! i = Some x \<and> ema ! (i - 1) = Some p \<and>
               x = Close (bars data ! i) * (2 / 21) + p * (1 - 2 / 21)))"
proof -
  let ?close = "map Close (bars data)"
  let ?sma = "sma_indicator ?close 20"
  let ?ema = "ema_indicator ?close 20"
  define e where "e = (\<lambda>i. ewm (2 / 21) ?close ! i)"
  have n: "20 \<le> length ?close" using assms by simp
  have s: "getitem (add_technical_indicators data) ''SMA_20'' = Some (Floats ?sma)"
    by (simp add: add_technical_indicators_unfold getitem_setitem)
  have m: "getitem (add_technical_indicators data) ''EMA_20'' = Some (Floats ?ema)"
    by (simp add: add_technical_indicators_unfold getitem_setitem)
  have len: "length ?ema = length (bars data)"
    by (simp add: length_ema_indicator)
  have ne: "bars data \<noteq> []"
    using assms by auto
  have first: "e 0 = Close (bars data ! 0)"
    using ne ewm_first [of ?close "2 / 21"] by (simp add: e_def)
  have rec: "e i = Close (bars data ! i) * (2 / 21) + e (i - 1) * (1 - 2 / 21)"
    if "0 < i" "i < length (bars data)" for i
    using that ewm_step [of i ?close "2 / 21"] by (simp add: e_def)
  have entry: "?ema ! i = (if i < 19 then None else Some (e i))"
    if "i < length (bars data)" for i
    using that by (simp add: nth_ema_indicator e_def)
  have "?sma ! 19 = Some (mean (take 20 (drop (19 + 1 - 20) ?close)))"
    using n by (simp add: nth_sma_indicator)
  then have mean19: "?sma ! 19 = Some (mean (take 20 ?close))"
    by simp
  have step: "\<exists>x p. ?ema ! i = Some x \<and> ?ema ! (i - 1) = Some p \<and>
               x = Close (bars data ! i) * (2 / 21) + p * (1 - 2 / 21)"
    if "20 \<le> i" "i < length (bars data)" for i
  proof -
    have "?ema ! i = Some (e i)" using that entry [of i] by simp
    moreover have "?ema ! (i - 1) = Some (e (i - 1))" using that entry [of "i - 1"] by simp
    moreover have "e i = Close (bars data ! i) * (2 / 21) + e (i - 1) * (1 - 2 / 21)"
      using that rec [of i] by simp
    ultimately show ?thesis by blast
  qed
  show ?thesis
    using s m len first rec entry mean19 step by blast
qed

theorem ema_20_column_witness:
  "20 \<le> length (bars ramp_frame) \<and>
   (\<exists>sma ema.
      getitem (add_technical_indicators ramp_frame) ''SMA_20'' = Some (Floats sma) \<and>
      getitem (add_technical_indicators ramp_frame) ''EMA_20'' = Some (Floats ema) \<and>
      length ema = 21 \<and> ema ! 18 = None \<and> sma ! 19 = Some (21 / 2) \<and>
      (\<exists>p. ema ! 19 = Some p \<and> ema ! 20 = Some (2 + p * (19 / 21))))"
proof -
  have b: "bars ramp_frame = ramp_bars"
    by (simp add: ramp_frame_def)
  have n: "length ramp_bars = 21"
    by (simp add: ramp_bars_def)
  have h: "20 \<le> length (bars ramp_frame)"
    by (simp add: b n)
  have c: "Close (ramp_bars ! 20) = 21"
    by (simp add: ramp_bars_def)
  have seed: "mean (take 20 (map Close ramp_bars)) = 21 / 2"
    by code_simp
  obtain sma ema e where
    s: "getitem (add_technical_indicators ramp_frame) ''SMA_20'' = Some (Floats sma)"
    and m: "getitem (add_technical_indicators ramp_frame) ''EMA_20'' = Some (Floats ema)"
    and len: "length ema = length (bars ramp_frame)"
    and entry: "\<forall>i. i < length (bars ramp_frame) \<longrightarrow>
        ema ! i = (if i < 19 then None else Some (e i))"
    and mean19: "sma ! 19 = Some (mean (take 20 (map Close (bars ramp_frame))))"
    and step: "\<forall>i. 20 \<le> i \<and> i < length (bars ramp_frame) \<longrightarrow>
        (\<exists>x p. ema ! i = Some x \<and> ema ! (i - 1) = Some p \<and>
               x = Close (bars ramp_frame ! i) * (2 / 21) + p * (1 - 2 / 21))"
    using ema_20_column [OF h] by blast
  have "ema ! 18 = None"
    using entry [rule_format, of 18] by (simp add: b n)
  moreover have "sma ! 19 = Some (21 / 2)"
    using mean19 by (simp add: b seed)
  moreover have "\<exists>p. ema ! 19 = Some p \<and> ema ! 20 = Some (2 + p * (19 / 21))"
    using step [rule_format, of 20] by (auto simp: b n c)
  ultimately show ?thesis
    using h s m len by (simp add: b n)
qed


subsection \<open>What the calls leave unchanged\<close>

text \<open>
  C10. For every table, \<^verbatim>\<open>add_technical_indicators\<close> leaves the index and the rows
  (the columns Open, High, Low, Close and Volume, in their order) as they are, leaves
  every column with a label other than \<^verbatim>\<open>SMA_20\<close> and \<^verbatim>\<open>EMA_20\<close> as it is
  and where it is, and the labels of the result are those of the argument and these two;
  on a table that has neither, exactly these two columns are appended. And
  \<^verbatim>\<open>calculate_metrics\<close> leaves its table as it is.
\<close>

theorem add_technical_indicators_frame:
  "index (add_technical_indicators data) = index data \<and>
   bars (add_technical_indicators data) = bars data \<and>
   filter (\<lambda>(l, c). l \<noteq> ''SMA_20'' \<and> l \<noteq> ''EMA_20'') (columns (add_technical_indicators data)) =
     filter (\<lambda>(l, c). l \<noteq> ''SMA_20'' \<and> l \<noteq> ''EMA_20'') (columns data) \<and>
   set (map fst (columns (add_technical_indicators data))) =
     set (map fst (columns data)) \<union> {''SMA_20'', ''EMA_20''} \<and>
   (''SMA_20'' \<notin> set (map fst (columns data)) \<and> ''EMA_20'' \<notin> set (map fst (columns data)) \<longrightarrow>
      (\<exists>sma ema. columns (add_technical_indicators data) =
         columns data @ [(''SMA_20'', Floats sma), (''EMA_20'', Floats ema)])) \<and>
   fst (calculate_metrics data) = data"
proof -
  let ?s = "Floats (sma_indicator (map Close (bars data)) 20)"
  let ?e = "Floats (ema_indicator (map Close (bars data)) 20)"
  let ?d1 = "setitem ''SMA_20'' ?s data"
  let ?d2 = "setitem ''EMA_20'' ?e ?d1"
  have sw: "(\<lambda>(l::string, c::column). l \<noteq> ''SMA_20'' \<and> l \<noteq> ''EMA_20'') =
            (\<lambda>(l, c). l \<noteq> ''EMA_20'' \<and> l \<noteq> ''SMA_20'')"
    by auto
  have "filter (\<lambda>(l, c). l \<noteq> ''EMA_20'' \<and> l \<noteq> ''SMA_20'') (columns ?d2) =
        filter (\<lambda>(l, c). l \<noteq> ''EMA_20'' \<and> l \<noteq> ''SMA_20'') (columns ?d1)"
    by (rule filter_setitem)
  also have "\<dots> = filter (\<lambda>(l, c). l \<noteq> ''SMA_20'' \<and> l \<noteq> ''EMA_20'') (columns ?d1)"
    by (simp only: sw)
  also have "\<dots> = filter (\<lambda>(l, c). l \<noteq> ''SMA_20'' \<and> l \<noteq> ''EMA_20'') (columns data)"
    by (rule filter_setitem)
  finally have others: "filter (\<lambda>(l, c). l \<noteq> ''SMA_20'' \<and> l \<noteq> ''EMA_20'') (columns ?d2) =
        filter (\<lambda>(l, c). l \<noteq> ''SMA_20'' \<and> l \<noteq> ''EMA_20'') (columns data)"
    by (simp only: sw)
  have labs: "set (map fst (columns ?d2)) = set (map fst (columns data)) \<union> {''SMA_20'', ''EMA_20''}"
    unfolding labels_setitem by auto
  have new: "columns ?d2 = columns data @ [(''SMA_20'', ?s), (''EMA_20'', ?e)]"
    if "''SMA_20'' \<notin> set (map fst (columns data))" "''EMA_20'' \<notin> set (map fst (columns data))"
  proof -
    have "columns ?d1 = columns data @ [(''SMA_20'', ?s)]"
      using that(1) by (rule columns_setitem_new)
    moreover have "''EMA_20'' \<notin> set (map fst (columns ?d1))"
      using that(2) unfolding labels_setitem by simp
    ultimately show ?thesis
      by (simp add: columns_setitem_new)
  qed
  have pure: "fst (calculate_metrics data) = data"
    by (simp add: calculate_metrics_def)
  show ?thesis
    unfolding add_technical_indicators_unfold
    using others labs new pure by (simp add: index_setitem bars_setitem)
qed

theorem add_technical_indicators_frame_witness:
  "''SMA_20'' \<notin> set (map fst (columns normalised_frame)) \<and>
   ''EMA_20'' \<notin> set (map fst (columns normalised_frame)) \<and>
   index (add_technical_indicators normalised_frame) = RangeIndex 2 \<and>
   bars (add_technical_indicators normalised_frame) = rising_bars \<and>
   (\<exists>sma ema. columns (add_technical_indicators normalised_frame) =
      [(''Datetime'', Stamps (Some ''US/Eastern'') [0, 86400000000000]),
       (''SMA_20'', Floats sma), (''EMA_20'', Floats ema)]) \<and>
   fst (calculate_metrics normalised_frame) = normalised_frame"
proof -
  have c: "columns normalised_frame =
      [(''Datetime'', Stamps (Some ''US/Eastern'') [0, 86400000000000])]"
    "index normalised_frame = RangeIndex 2" "bars normalised_frame = rising_bars"
    by (simp_all add: normalised_frame_def)
  have h: "''SMA_20'' \<notin> set (map fst (columns normalised_frame)) \<and>
           ''EMA_20'' \<notin> set (map fst (columns normalised_frame))"
    by (simp add: c)
  show ?thesis
    using h add_technical_indicators_frame [of normalised_frame] by (simp add: c)
qed

end
